theory Spec2Isabelle
  imports Complex_Main
begin

section \<open>Python values, strings and exceptions\<close>

text \<open>
  The orchestrator passes untyped dictionaries (\<^verbatim>\<open>Dict[str, Any]\<close>) between its phases.
  A dictionary is an association list in insertion order, a value is one of the shapes the
  source stores in them. Floats are modelled as rationals; the claims below are about
  order and equality of small decimal constants, which the idealisation keeps.
  Strings are \<^typ>\<open>string\<close>; case folding and whitespace are the ASCII ones.
\<close>

datatype pyval =
    PNone
  | PBool bool
  | PNum rat
  | PStr string
  | PList "pyval list"
  | PDict "(string \<times> pyval) list"

type_synonym pydict = "(string \<times> pyval) list"

datatype exn =
    AttributeError string
  | TypeError string
  | KeyError string
  | ValueError string
  | ValidationError string
  | Exception string

fun str_exn :: "exn \<Rightarrow> string" where
  "str_exn (AttributeError m) = m"
| "str_exn (TypeError m) = m"
| "str_exn (KeyError m) = m"
| "str_exn (ValueError m) = m"
| "str_exn (ValidationError m) = m"
| "str_exn (Exception m) = m"

text \<open>Truth value of a Python object, as \<^verbatim>\<open>if x:\<close> tests it.\<close>

fun truthy :: "pyval \<Rightarrow> bool" where
  "truthy PNone = False"
| "truthy (PBool b) = b"
| "truthy (PNum x) = (x \<noteq> 0)"
| "truthy (PStr s) = (s \<noteq> [])"
| "truthy (PList xs) = (xs \<noteq> [])"
| "truthy (PDict kvs) = (kvs \<noteq> [])"

text \<open>\<^verbatim>\<open>d.get(k, default)\<close> and \<^verbatim>\<open>k in d\<close>.\<close>

definition dict_get :: "pydict \<Rightarrow> string \<Rightarrow> pyval \<Rightarrow> pyval" where
  "dict_get d k dflt = (case map_of d k of None \<Rightarrow> dflt | Some v \<Rightarrow> v)"

definition dict_has :: "(string \<times> 'v) list \<Rightarrow> string \<Rightarrow> bool" where
  "dict_has d k = (map_of d k \<noteq> None)"

text \<open>\<^verbatim>\<open>d[k] = v\<close>: an existing key keeps its position, a new key goes last.\<close>

fun dict_set :: "('k \<times> 'v) list \<Rightarrow> 'k \<Rightarrow> 'v \<Rightarrow> ('k \<times> 'v) list" where
  "dict_set [] k v = [(k, v)]"
| "dict_set (p # ps) k v = (if fst p = k then (k, v) # ps else p # dict_set ps k v)"

text \<open>\<^verbatim>\<open>str.lower()\<close>, \<^verbatim>\<open>str.split()\<close> and \<^verbatim>\<open>sub in s\<close>.\<close>

definition char_lower :: "char \<Rightarrow> char" where
  "char_lower c =
     (let n = (of_char c :: nat) in if 65 \<le> n \<and> n \<le> 90 then char_of (n + 32) else c)"

definition lower :: "string \<Rightarrow> string" where
  "lower s = map char_lower s"

definition is_space :: "char \<Rightarrow> bool" where
  "is_space c = ((of_char c :: nat) \<in> set [9, 10, 11, 12, 13, 28, 29, 30, 31, 32])"

fun split_aux :: "string \<Rightarrow> string \<Rightarrow> string list" where
  "split_aux cur [] = (if cur = [] then [] else [cur])"
| "split_aux cur (c # cs) =
     (if is_space c then (if cur = [] then split_aux [] cs else cur # split_aux [] cs)
      else split_aux (cur @ [c]) cs)"

definition split :: "string \<Rightarrow> string list" where
  "split s = split_aux [] s"

fun starts_with :: "string \<Rightarrow> string \<Rightarrow> bool" where
  "starts_with [] s = True"
| "starts_with (x # xs) [] = False"
| "starts_with (x # xs) (y # ys) = (x = y \<and> starts_with xs ys)"

fun contains :: "string \<Rightarrow> string \<Rightarrow> bool" where
  "contains w [] = (w = [])"
| "contains w (c # cs) = (starts_with w (c # cs) \<or> contains w cs)"

text \<open>\<^verbatim>\<open>any(word in task_lower for word in words)\<close>.\<close>

definition any_word_in :: "string list \<Rightarrow> string \<Rightarrow> bool" where
  "any_word_in ws s = list_ex (\<lambda>w. contains w s) ws"

section \<open>Agent selection\<close>

text \<open>
  \<^verbatim>\<open>EnhancedAgentOrchestrator._select_agents_for_task\<close>. The structured plan is an
  argument the body never reads. Each \<^verbatim>\<open>append\<close> is one step of the chain below;
  \<open>keyword_agents\<close> is the list before the final minimum-size guard.
\<close>

definition append_if :: "bool \<Rightarrow> string \<Rightarrow> string list \<Rightarrow> string list" where
  "append_if b a xs = (if b then xs @ [a] else xs)"

definition keyword_agents :: "string \<Rightarrow> string list" where
  "keyword_agents task_description =
     (let task_lower = lower task_description;
          s0 = [];
          s1 = append_if (length (split task_description) > 10) ''planner'' s0;
          s2 = append_if (any_word_in [''research'', ''find'', ''gather'', ''search''] task_lower)
                 ''research'' s1;
          s3 = append_if
                 (any_word_in [''analyze'', ''analyze'', ''data'', ''trend'', ''pattern''] task_lower)
                 ''analysis'' s2;
          s4 = append_if
                 (any_word_in [''create'', ''generate'', ''make'', ''build'', ''chart'', ''report'']
                    task_lower)
                 ''creator'' s3;
          s5 = append_if (length s4 > 1) ''coordinator'' s4
      in s5)"

definition ensure_two :: "string list \<Rightarrow> string list" where
  "ensure_two selected_agents =
     (if length selected_agents < 2 then
        (let t1 = append_if (''research'' \<notin> set selected_agents) ''research'' selected_agents;
             t2 = append_if (''analysis'' \<notin> set t1) ''analysis'' t1
         in t2)
      else selected_agents)"

definition select_agents_for_task :: "string \<Rightarrow> pyval \<Rightarrow> string list" where
  "select_agents_for_task task_description structured_plan =
     ensure_two (keyword_agents task_description)"

section \<open>Search context and the tool registry\<close>

text \<open>
  \<^verbatim>\<open>schemas.SearchResult\<close>, with the two fields the orchestrator reads. The context
  argument of the orchestrator's methods is \<^verbatim>\<open>List[SearchResult] = None\<close>, hence an option.
\<close>

record SearchResult =
  document_id :: string
  content :: string

fun string_of_nat :: "nat \<Rightarrow> string" where
  "string_of_nat n =
     (if n < 10 then [char_of (48 + n)]
      else string_of_nat (n div 10) @ [char_of (48 + n mod 10)])"

fun join :: "string \<Rightarrow> string list \<Rightarrow> string" where
  "join sep [] = []"
| "join sep [x] = x"
| "join sep (x # y # ys) = x @ sep @ join sep (y # ys)"

text \<open>\<^verbatim>\<open>EnhancedAgentOrchestrator._format_context\<close>.\<close>

definition format_context :: "SearchResult list option \<Rightarrow> string" where
  "format_context context =
     (case context of
        None \<Rightarrow> []
      | Some rs \<Rightarrow>
          if rs = [] then []
          else join [CHR 0x0A, CHR 0x0A]
                 (map (\<lambda>(i, r). ''Context '' @ string_of_nat (i + 1) @ '': ''
                                   @ take 300 (content r) @ ''...'')
                      (enumerate 0 (take 3 rs))))"

text \<open>
  \<^verbatim>\<open>ToolRegistry\<close>: a tool has its declared parameter names and its function, whose
  outcome (a value or an exception) is outside this development.
\<close>

record tool =
  tool_parameters :: "string list"
  tool_function :: "pydict \<Rightarrow> exn + pyval"

text \<open>
  What the orchestrator takes from outside: the clock, fresh identifiers, the registered
  tools, Python's rendering of a value as text, and the outcomes of the calls to the agents
  and to the knowledge base.
\<close>

record AgentResult =
  ar_success :: bool
  ar_output :: string
  ar_metadata :: pydict

record env =
  now :: rat
  now_iso :: string
  elapsed :: rat
  uuid4 :: string
  tools :: "(string \<times> tool) list"
  py_str :: "pyval \<Rightarrow> string"
  planner_execute :: "string \<Rightarrow> string \<Rightarrow> exn + AgentResult"
  agent_execute_with_tools :: "nat \<Rightarrow> string \<Rightarrow> exn + pyval"
  coordinator_synthesize :: "pydict list \<Rightarrow> exn + pyval"
  fallback_text :: "pydict list \<Rightarrow> string"
  suggest_enrichment :: "exn + pyval list"

text \<open>\<^verbatim>\<open>ToolRegistry.execute_tool(tool_name, **kwargs)\<close>.\<close>

definition execute_tool :: "env \<Rightarrow> string \<Rightarrow> pydict \<Rightarrow> exn + pydict" where
  "execute_tool e tool_name kwargs =
     (case map_of (tools e) tool_name of
        None \<Rightarrow> Inl (ValueError (''Tool '' @ tool_name @ '' not found''))
      | Some t \<Rightarrow>
          (let missing_params = filter (\<lambda>p. \<not> dict_has kwargs p) (tool_parameters t);
               outcome = (if missing_params \<noteq> []
                          then Inl (ValueError ''Missing required parameters'')
                          else tool_function t kwargs)
           in case outcome of
                Inr r \<Rightarrow>
                  Inr [(''success'', PBool True), (''tool'', PStr tool_name),
                       (''result'', r), (''timestamp'', PStr (now_iso e))]
              | Inl x \<Rightarrow>
                  Inr [(''success'', PBool False), (''tool'', PStr tool_name),
                       (''error'', PStr (str_exn x)), (''timestamp'', PStr (now_iso e))]))"

section \<open>Output validation\<close>

record verdict =
  valid :: bool
  reason :: string
  confidence :: string

text \<open>\<^verbatim>\<open>d[k]\<close>, \<^verbatim>\<open>output[:n]\<close>, \<^verbatim>\<open>x > c\<close> and the comprehension over the context.\<close>

definition dict_item :: "pydict \<Rightarrow> string \<Rightarrow> exn + pyval" where
  "dict_item d k = (case map_of d k of None \<Rightarrow> Inl (KeyError k) | Some v \<Rightarrow> Inr v)"

definition py_slice :: "pyval \<Rightarrow> nat \<Rightarrow> exn + pyval" where
  "py_slice v n =
     (case v of
        PStr s \<Rightarrow> Inr (PStr (take n s))
      | PList xs \<Rightarrow> Inr (PList (take n xs))
      | _ \<Rightarrow> Inl (TypeError ''object is not subscriptable''))"

definition py_gt :: "pyval \<Rightarrow> rat \<Rightarrow> exn + bool" where
  "py_gt v c =
     (case v of
        PNum x \<Rightarrow> Inr (x > c)
      | PBool b \<Rightarrow> Inr ((if b then 1 else 0) > c)
      | _ \<Rightarrow> Inl (TypeError ''> not supported between these instances''))"

definition source_ids :: "SearchResult list option \<Rightarrow> exn + pyval" where
  "source_ids context =
     (case context of
        None \<Rightarrow> Inl (TypeError ''NoneType object is not iterable'')
      | Some rs \<Rightarrow> Inr (PList (map (\<lambda>r. PStr (document_id r)) rs)))"

text \<open>
  The fact-checking step of \<^verbatim>\<open>_validate_agent_output\<close>: \<open>Inr None\<close> when the step
  returns nothing and the fallback validation runs.
\<close>

definition fact_check_step :: "env \<Rightarrow> pyval \<Rightarrow> SearchResult list option \<Rightarrow> exn + verdict option" where
  "fact_check_step e out context =
     (if \<not> dict_has (tools e) ''fact_checker'' then Inr None
      else case py_slice out 500 of
        Inl x \<Rightarrow> Inl x
      | Inr claim \<Rightarrow>
      (case source_ids context of
        Inl x \<Rightarrow> Inl x
      | Inr sources \<Rightarrow>
      (case execute_tool e ''fact_checker''
              [(''claim'', claim), (''context'', PStr (format_context context)),
               (''sources'', sources)] of
        Inl x \<Rightarrow> Inl x
      | Inr fact_check_result \<Rightarrow>
      (case dict_item fact_check_result ''success'' of
        Inl x \<Rightarrow> Inl x
      | Inr ok \<Rightarrow>
          if \<not> truthy ok then Inr None
          else (case dict_item fact_check_result ''result'' of
            Inl x \<Rightarrow> Inl x
          | Inr (PDict d) \<Rightarrow>
              (let conf = dict_get d ''confidence'' (PNum (1 / 2)) in
               case py_gt conf (6 / 10) of
                 Inl x \<Rightarrow> Inl x
               | Inr g \<Rightarrow>
                   Inr (Some \<lparr>valid = g,
                              reason = ''Fact-check confidence: '' @ py_str e conf,
                              confidence = (if g then ''high'' else ''medium'')\<rparr>))
          | Inr _ \<Rightarrow> Inl (AttributeError ''object has no attribute get''))))))"

text \<open>The fallback validation: word overlap with the formatted context.\<close>

definition fallback_validation :: "pyval \<Rightarrow> SearchResult list option \<Rightarrow> exn + verdict" where
  "fallback_validation out context =
     (let context_text = format_context context in
      if context_text \<noteq> [] \<and> length context_text > 100 then
        (case out of
           PStr s \<Rightarrow>
             (let output_words = remdups (split (lower s));
                  context_words = remdups (split (lower context_text));
                  overlap = length (filter (\<lambda>w. w \<in> set context_words) output_words)
              in if (of_nat overlap :: rat) > of_nat (length output_words) * (3 / 10)
                 then Inr \<lparr>valid = True, reason = ''Good context overlap'', confidence = ''medium''\<rparr>
                 else Inr \<lparr>valid = False, reason = ''Low context overlap'', confidence = ''low''\<rparr>)
         | _ \<Rightarrow> Inl (AttributeError ''object has no attribute lower''))
      else Inr \<lparr>valid = True, reason = ''Basic validation passed'', confidence = ''low''\<rparr>)"

text \<open>The body of the \<^verbatim>\<open>try\<close> of \<^verbatim>\<open>_validate_agent_output\<close>.\<close>

definition validate_body :: "env \<Rightarrow> string \<Rightarrow> pydict \<Rightarrow> SearchResult list option \<Rightarrow> exn + verdict" where
  "validate_body e agent_name agent_result context =
     (let tools_used = dict_get agent_result ''tools_used'' (PList []) in
      if truthy tools_used
      then Inr \<lparr>valid = True, reason = ''Tools were used'', confidence = ''high''\<rparr>
      else
        (let out = dict_get agent_result ''output'' (PStr []) in
         if \<not> truthy out
         then Inr \<lparr>valid = False, reason = ''No output generated'', confidence = ''low''\<rparr>
         else (case fact_check_step e out context of
                 Inl x \<Rightarrow> Inl x
               | Inr (Some v) \<Rightarrow> Inr v
               | Inr None \<Rightarrow> fallback_validation out context)))"

text \<open>
  \<^verbatim>\<open>_validate_agent_output\<close>: the body under \<^verbatim>\<open>try\<close>, and the handler of
  \<^verbatim>\<open>except Exception\<close>.
\<close>

definition validate_agent_output :: "env \<Rightarrow> string \<Rightarrow> pydict \<Rightarrow> SearchResult list option \<Rightarrow> verdict" where
  "validate_agent_output e agent_name agent_result context =
     (case validate_body e agent_name agent_result context of
        Inr v \<Rightarrow> v
      | Inl x \<Rightarrow> \<lparr>valid = True, reason = ''Validation failed, assuming valid'',
                  confidence = ''low''\<rparr>)"

section \<open>Agents\<close>

text \<open>
  An agent object is represented by the methods its class defines or inherits; the
  orchestrator looks methods up by name (\<^verbatim>\<open>hasattr\<close>, attribute access).
  The lists are the \<^verbatim>\<open>def\<close>s of \<^verbatim>\<open>base_agent.py\<close> and of each agent module.
\<close>

record agent =
  agent_methods :: "string list"

definition BaseAgent_methods :: "string list" where
  "BaseAgent_methods =
     [''__init__'', ''execute'', ''execute_with_tools'', ''can_handle'', ''get_capability_score'',
      ''add_to_history'', ''get_performance_metrics'', ''get_context_summary'', ''use_tool'',
      ''validate_task'', ''generate_clarifying_questions'']"

definition PlannerAgent :: agent where
  "PlannerAgent = \<lparr>agent_methods = BaseAgent_methods @
     [''_generate_plan'', ''_parse_plan'', ''_generate_fallback_plan'']\<rparr>"

definition ResearchAgent :: agent where
  "ResearchAgent = \<lparr>agent_methods = BaseAgent_methods @
     [''_conduct_research'', ''_analyze_context'', ''_identify_research_areas'', ''_research_area'',
      ''_identify_knowledge_gaps'', ''_analyze_findings'', ''_extract_confidence'',
      ''_extract_insights'']\<rparr>"

definition AnalysisAgent :: agent where
  "AnalysisAgent = \<lparr>agent_methods = BaseAgent_methods @
     [''_extract_data_from_context'', ''_perform_analysis'', ''_custom_analysis'',
      ''_financial_analysis'', ''_trend_analysis'', ''_performance_analysis'', ''_general_analysis'',
      ''_calculate_volatility'', ''_generate_insights'', ''_extract_insights'',
      ''_extract_confidence'']\<rparr>"

definition CreatorAgent :: agent where
  "CreatorAgent = \<lparr>agent_methods = BaseAgent_methods @
     [''_determine_content_type'', ''_create_content'', ''_create_chart'', ''_extract_chart_type'',
      ''_extract_chart_data'', ''_extract_chart_title'', ''_create_fallback_chart'',
      ''_create_report'', ''_create_presentation'', ''_parse_presentation_outline'',
      ''_format_output'']\<rparr>"

definition CoordinatorAgent :: agent where
  "CoordinatorAgent = \<lparr>agent_methods = BaseAgent_methods @
     [''_analyze_requirements'', ''_parse_requirements'', ''_generate_fallback_requirements'',
      ''_create_execution_plan'', ''_parse_execution_plan'', ''_generate_fallback_execution_plan'',
      ''_coordinate_execution'', ''_execute_phase'', ''_generate_coordination_summary'',
      ''_perform_quality_assurance'']\<rparr>"

text \<open>\<^verbatim>\<open>EnhancedAgentOrchestrator._initialize_agents\<close>.\<close>

definition initialize_agents :: "(string \<times> agent) list" where
  "initialize_agents =
     [(''planner'', PlannerAgent), (''research'', ResearchAgent), (''analysis'', AnalysisAgent),
      (''creator'', CreatorAgent), (''coordinator'', CoordinatorAgent)]"

section \<open>Result aggregation\<close>

text \<open>
  The dictionary \<^verbatim>\<open>_aggregate_results_enhanced\<close> returns has one of three shapes:
  the \<^verbatim>\<open>"status": "failed"\<close> dictionary (reason, summary), the
  \<^verbatim>\<open>"status": "error"\<close> dictionary (error, summary), or the aggregated output with its
  fixed keys. The per-agent dictionaries inside are keyed by whatever value
  \<^verbatim>\<open>result.get("agent_name", "unknown")\<close> gives.
\<close>

record aggregated =
  agg_task_description :: string
  execution_summary :: "(pyval \<times> pydict) list"
  final_result :: pyval
  confidence_scores :: "(pyval \<times> pyval) list"
  agg_tools_used :: "pyval list"
  validation_status :: "(pyval \<times> pyval) list"
  overall_confidence :: "rat option"

datatype agg_result =
    Failed_dict string string
  | Error_dict string string
  | Aggregated aggregated

text \<open>Iterating a value, and using a value as a dictionary key.\<close>

definition py_iter :: "pyval \<Rightarrow> exn + pyval list" where
  "py_iter v =
     (case v of
        PList xs \<Rightarrow> Inr xs
      | PStr s \<Rightarrow> Inr (map (\<lambda>c. PStr [c]) s)
      | PDict d \<Rightarrow> Inr (map PStr (remdups (map fst d)))
      | _ \<Rightarrow> Inl (TypeError ''object is not iterable''))"

definition hash_key :: "pyval \<Rightarrow> exn + pyval" where
  "hash_key v =
     (case v of
        PList xs \<Rightarrow> Inl (TypeError ''unhashable type: list'')
      | PDict d \<Rightarrow> Inl (TypeError ''unhashable type: dict'')
      | PBool b \<Rightarrow> Inr (PNum (if b then 1 else 0))
      | _ \<Rightarrow> Inr v)"

text \<open>\<^verbatim>\<open>sum(values)\<close>: starts from 0 and adds from the left.\<close>

fun py_sum :: "pyval list \<Rightarrow> rat \<Rightarrow> exn + rat" where
  "py_sum [] acc = Inr acc"
| "py_sum (v # vs) acc =
     (case v of
        PNum x \<Rightarrow> py_sum vs (acc + x)
      | PBool b \<Rightarrow> py_sum vs (acc + (if b then 1 else 0))
      | _ \<Rightarrow> Inl (TypeError ''unsupported operand type(s) for +''))"

text \<open>The loop \<^verbatim>\<open>for result in successful_results\<close>.\<close>

fun collect_results :: "pydict list \<Rightarrow> aggregated \<Rightarrow> exn + aggregated" where
  "collect_results [] a = Inr a"
| "collect_results (r # rs) a =
     (let agent_name = dict_get r ''agent_name'' (PStr ''unknown'');
          out = dict_get r ''output'' (dict_get r ''result'' (PStr []));
          conf = dict_get r ''confidence'' (PNum (1 / 2));
          tls = dict_get r ''tools_used'' (PList []);
          validation = dict_get r ''validation'' (PDict [])
      in case hash_key agent_name of
           Inl x \<Rightarrow> Inl x
         | Inr k \<Rightarrow>
             (case py_iter tls of
                Inl x \<Rightarrow> Inl x
              | Inr ts \<Rightarrow>
                  collect_results rs
                    (a\<lparr>execution_summary :=
                         dict_set (execution_summary a) k
                           [(''output'', out), (''confidence'', conf), (''tools_used'', tls),
                            (''validation'', validation)],
                       confidence_scores := dict_set (confidence_scores a) k conf,
                       agg_tools_used := agg_tools_used a @ ts,
                       validation_status := dict_set (validation_status a) k validation\<rparr>)))"

text \<open>
  The synthesis step. \<^verbatim>\<open>self.agents.get("coordinator")\<close> is an agent object (always
  true as a condition) or \<^verbatim>\<open>None\<close>; calling a method the object does not have raises
  \<^verbatim>\<open>AttributeError\<close>. \<open>coordinator_synthesize\<close> stands for the method where an object
  has it.
\<close>

definition synthesis_step :: "env \<Rightarrow> (string \<times> agent) list \<Rightarrow> pydict list \<Rightarrow> exn + pyval" where
  "synthesis_step e ags successful_results =
     (case map_of ags ''coordinator'' of
        Some coordinator \<Rightarrow>
          if ''synthesize_results'' \<in> set (agent_methods coordinator)
          then coordinator_synthesize e successful_results
          else Inl (AttributeError ''object has no attribute synthesize_results'')
      | None \<Rightarrow> Inr (PStr (fallback_text e successful_results)))"

text \<open>The body of the \<^verbatim>\<open>try\<close> of \<^verbatim>\<open>_aggregate_results_enhanced\<close>, then the method.\<close>

definition aggregate_body ::
  "env \<Rightarrow> (string \<times> agent) list \<Rightarrow> string \<Rightarrow> pydict list \<Rightarrow> exn + agg_result" where
  "aggregate_body e ags task_description execution_results =
     (let successful_results = filter (\<lambda>r. \<not> dict_has r ''error'') execution_results in
      if successful_results = []
      then Inr (Failed_dict ''No successful agent executions''
                  ''Task execution failed across all agents'')
      else
        (case collect_results successful_results
                \<lparr>agg_task_description = task_description, execution_summary = [],
                 final_result = PStr [], confidence_scores = [], agg_tools_used = [],
                 validation_status = [], overall_confidence = None\<rparr> of
           Inl x \<Rightarrow> Inl x
         | Inr a \<Rightarrow>
             (case synthesis_step e ags successful_results of
                Inl x \<Rightarrow> Inl x
              | Inr fr \<Rightarrow>
                  (case py_sum (map snd (confidence_scores a)) 0 of
                     Inl x \<Rightarrow> Inl x
                   | Inr sm \<Rightarrow>
                       Inr (Aggregated
                              (a\<lparr>final_result := fr,
                                 overall_confidence :=
                                   Some (sm / of_nat (length (confidence_scores a)))\<rparr>))))))"

definition aggregate_results_enhanced ::
  "env \<Rightarrow> (string \<times> agent) list \<Rightarrow> string \<Rightarrow> pydict list \<Rightarrow> agg_result" where
  "aggregate_results_enhanced e ags task_description execution_results =
     (case aggregate_body e ags task_description execution_results of
        Inr r \<Rightarrow> r
      | Inl x \<Rightarrow> Error_dict (str_exn x) ''Failed to aggregate agent results'')"

section \<open>The task registry\<close>

datatype AgentStatus = PLANNING | EXECUTING | COMPLETED | FAILED | PAUSED

text \<open>\<^verbatim>\<open>schemas.TaskStatus\<close>; times are seconds on the clock.\<close>

record TaskStatus =
  task_id :: string
  description :: string
  status :: AgentStatus
  created_at :: rat
  updated_at :: rat
  agents_info :: "pyval list"
  progress :: rat
  result :: "agg_result option"
  errors :: "string list option"

text \<open>
  \<^verbatim>\<open>schemas.TaskResult\<close>. The model declares
  \<^verbatim>\<open>overall_confidence: float = Field(ge=0.0, le=1.0)\<close> with no default, so the
  constructor requires it: \<open>TaskResult_init\<close> takes the keyword as an option (\<open>None\<close> when
  the call does not pass it) and raises the validation error as pydantic does. The other
  arguments are taken as of their declared types.
\<close>

record TaskResult =
  tr_task_id :: string
  tr_status :: AgentStatus
  tr_final_result :: agg_result
  agent_summaries :: "pydict list"
  knowledge_gaps :: "pyval list"
  execution_time :: rat
  tr_created_at :: rat
  completed_at :: rat
  tr_overall_confidence :: rat

definition TaskResult_init ::
  "string \<Rightarrow> AgentStatus \<Rightarrow> agg_result \<Rightarrow> pydict list \<Rightarrow> pyval list \<Rightarrow> rat \<Rightarrow> rat \<Rightarrow> rat
     \<Rightarrow> rat option \<Rightarrow> exn + TaskResult" where
  "TaskResult_init tid st fr summaries gaps et ca co oc =
     (case oc of
        None \<Rightarrow> Inl (ValidationError ''1 validation error for TaskResult: overall_confidence Field required'')
      | Some c \<Rightarrow>
          if 0 \<le> c \<and> c \<le> 1
          then Inr \<lparr>tr_task_id = tid, tr_status = st, tr_final_result = fr,
                    agent_summaries = summaries, knowledge_gaps = gaps, execution_time = et,
                    tr_created_at = ca, completed_at = co, tr_overall_confidence = c\<rparr>
          else Inl (ValidationError ''1 validation error for TaskResult: overall_confidence out of range''))"

text \<open>
  The orchestrator's own state: the registry \<^verbatim>\<open>self.tasks\<close>, the agents, the statistics.
  \<open>events\<close> is an observation added by the model: every write of a status and a progress
  value to the registry and every call of an agent, in the order they happen.
\<close>

datatype event = StatusWrite string AgentStatus rat | AgentCall nat string

record stats =
  total_tasks :: nat
  successful_tasks :: nat
  failed_tasks :: nat
  average_execution_time :: rat

record orchestrator =
  tasks :: "string \<rightharpoonup> TaskStatus"
  agents :: "(string \<times> agent) list"
  statistics :: stats
  events :: "event list"

text \<open>
  \<^verbatim>\<open>_update_task_status\<close>. The only result ever passed is the dictionary returned by the
  aggregation, which is never empty, so \<^verbatim>\<open>if result:\<close> holds whenever one is passed.
\<close>

definition update_task_status ::
  "rat \<Rightarrow> string \<Rightarrow> AgentStatus \<Rightarrow> rat \<Rightarrow> agg_result option \<Rightarrow> string list option
     \<Rightarrow> orchestrator \<Rightarrow> orchestrator" where
  "update_task_status t tid st p res errs s =
     (case tasks s tid of
        None \<Rightarrow> s
      | Some task \<Rightarrow>
          (let t1 = task\<lparr>status := st, progress := p, updated_at := t\<rparr>;
               t2 = (case res of None \<Rightarrow> t1 | Some r \<Rightarrow> t1\<lparr>result := Some r\<rparr>);
               t3 = (case errs of
                       None \<Rightarrow> t2
                     | Some es \<Rightarrow> if es \<noteq> [] then t2\<lparr>errors := Some es\<rparr> else t2)
           in s\<lparr>tasks := (tasks s)(tid \<mapsto> t3),
                events := events s @ [StatusWrite tid st p]\<rparr>))"

text \<open>\<^verbatim>\<open>_update_statistics\<close>.\<close>

definition update_statistics :: "bool \<Rightarrow> rat \<Rightarrow> orchestrator \<Rightarrow> orchestrator" where
  "update_statistics ok et s =
     (let st = statistics s;
          st1 = st\<lparr>total_tasks := total_tasks st + 1\<rparr>;
          st2 = (if ok then st1\<lparr>successful_tasks := successful_tasks st1 + 1\<rparr>
                 else st1\<lparr>failed_tasks := failed_tasks st1 + 1\<rparr>);
          current_avg = average_execution_time st2;
          n = total_tasks st2
      in s\<lparr>statistics :=
             st2\<lparr>average_execution_time := (current_avg * (of_nat n - 1) + et) / of_nat n\<rparr>\<rparr>)"

section \<open>Planning\<close>

text \<open>
  \<^verbatim>\<open>_plan_task_with_agents\<close> returns \<^verbatim>\<open>{"success": False, "error": ...}\<close> or
  \<^verbatim>\<open>{"success": True, "plan": ..., "selected_agents": ..., "plan_text": ...}\<close>.
\<close>

datatype plan_result = PlanFailure string | PlanSuccess pyval "string list" string

definition plan_task_with_agents ::
  "env \<Rightarrow> (string \<times> agent) list \<Rightarrow> string \<Rightarrow> SearchResult list option \<Rightarrow> plan_result" where
  "plan_task_with_agents e ags task_description context =
     (case map_of ags ''planner'' of
        None \<Rightarrow> PlanFailure (str_exn (KeyError ''planner''))
      | Some planner \<Rightarrow>
          (case planner_execute e task_description (format_context context) of
             Inl x \<Rightarrow> PlanFailure (str_exn x)
           | Inr pr \<Rightarrow>
               if \<not> ar_success pr then PlanFailure (ar_output pr)
               else
                 (let structured_plan = dict_get (ar_metadata pr) ''structured_plan'' (PDict []);
                      selected_agents = select_agents_for_task task_description structured_plan
                  in PlanSuccess structured_plan selected_agents (ar_output pr))))"

section \<open>Execution of the selected agents\<close>

text \<open>
  \<^verbatim>\<open>_execute_agent_with_tools\<close>: the agent's result with the orchestrator's three keys
  set, or the error dictionary of the handler.
\<close>

definition execute_agent_with_tools :: "env \<Rightarrow> nat \<Rightarrow> agent \<Rightarrow> string \<Rightarrow> pydict" where
  "execute_agent_with_tools e i ag agent_name =
     (let outcome =
            (if ''execute_with_tools'' \<in> set (agent_methods ag)
             then agent_execute_with_tools e i agent_name
             else Inl (TypeError ''execute() missing 1 required positional argument''));
          stamped =
            (case outcome of
               Inl x \<Rightarrow> Inl x
             | Inr (PDict d) \<Rightarrow>
                 (let tools_used = (if dict_has d ''tools_used''
                                    then dict_get d ''tools_used'' PNone else PList [])
                  in Inr (dict_set
                            (dict_set (dict_set d ''agent_name'' (PStr agent_name))
                               ''execution_timestamp'' (PStr (now_iso e)))
                            ''tools_used'' tools_used))
             | Inr _ \<Rightarrow> Inl (TypeError ''object does not support item assignment''))
      in case stamped of
           Inr d \<Rightarrow> d
         | Inl x \<Rightarrow>
             [(''error'', PStr (str_exn x)), (''agent_name'', PStr agent_name),
              (''tools_used'', PList []), (''confidence'', PNum 0)])"

text \<open>\<^verbatim>\<open>x *= 0.5\<close>, \<^verbatim>\<open>agent_name not in self.agents\<close>, and a verdict as the dictionary it is.\<close>

definition half_confidence :: "pyval \<Rightarrow> exn + pyval" where
  "half_confidence v =
     (case v of
        PNum x \<Rightarrow> Inr (PNum (x * (1 / 2)))
      | PBool b \<Rightarrow> Inr (PNum ((if b then 1 else 0) * (1 / 2)))
      | _ \<Rightarrow> Inl (TypeError ''unsupported operand type(s) for *=''))"

definition agent_in_registry :: "pyval \<Rightarrow> (string \<times> agent) list \<Rightarrow> exn + (string \<times> agent) option" where
  "agent_in_registry agent_name ags =
     (case agent_name of
        PStr a \<Rightarrow> Inr (case map_of ags a of None \<Rightarrow> None | Some ag \<Rightarrow> Some (a, ag))
      | PList xs \<Rightarrow> Inl (TypeError ''unhashable type: list'')
      | PDict d \<Rightarrow> Inl (TypeError ''unhashable type: dict'')
      | _ \<Rightarrow> Inr None)"

definition verdict_dict :: "verdict \<Rightarrow> pyval" where
  "verdict_dict v =
     PDict [(''valid'', PBool (valid v)), (''reason'', PStr (reason v)),
            (''confidence'', PStr (confidence v))]"

text \<open>The progress written before the agent at index \<open>i\<close> of \<open>n\<close> selected agents runs.\<close>

definition loop_progress :: "nat \<Rightarrow> nat \<Rightarrow> rat" where
  "loop_progress i n = 3 / 10 + (of_nat i * (4 / 10) / of_nat n)"

text \<open>
  One iteration of the loop of \<^verbatim>\<open>_execute_with_intelligent_agents\<close> after the progress
  update: the agent runs, its record is built, the output is validated, an invalid verdict
  halves the record's confidence, and the verdict is stored in the record. The calls to the
  context manager's per-task store catch their own exceptions and only feed the agent
  calls, whose outcomes come from outside.
\<close>

definition run_agent ::
  "env \<Rightarrow> nat \<Rightarrow> pyval \<Rightarrow> string \<Rightarrow> agent \<Rightarrow> SearchResult list option \<Rightarrow> exn + pydict" where
  "run_agent e i agent_name a ag context =
     (let agent_result = execute_agent_with_tools e i ag a;
          entry = [(''agent'', agent_name), (''result'', PDict agent_result),
                   (''timestamp'', PStr (now_iso e)),
                   (''tools_used'', dict_get agent_result ''tools_used'' (PList [])),
                   (''confidence'', dict_get agent_result ''confidence'' (PNum (7 / 10)))];
          validation_result = validate_agent_output e a agent_result context;
          conf = dict_get entry ''confidence'' PNone
      in case (if \<not> valid validation_result then half_confidence conf else Inr conf) of
           Inl x \<Rightarrow> Inl x
         | Inr c \<Rightarrow>
             Inr (dict_set (dict_set entry ''confidence'' c) ''validation''
                    (verdict_dict validation_result)))"

text \<open>
  The loop \<^verbatim>\<open>for i, agent_name in enumerate(selected_agents)\<close>, over the enumerated list
  still to visit; \<open>n\<close> is \<^verbatim>\<open>len(selected_agents)\<close>.
\<close>

fun agent_loop ::
  "env \<Rightarrow> string \<Rightarrow> SearchResult list option \<Rightarrow> nat \<Rightarrow> (nat \<times> pyval) list \<Rightarrow> pydict list
     \<Rightarrow> orchestrator \<Rightarrow> (exn + pydict list) \<times> orchestrator" where
  "agent_loop e tid context n [] execution_results s = (Inr execution_results, s)"
| "agent_loop e tid context n ((i, agent_name) # rest) execution_results s =
     (case agent_in_registry agent_name (agents s) of
        Inl x \<Rightarrow> (Inl x, s)
      | Inr None \<Rightarrow> agent_loop e tid context n rest execution_results s
      | Inr (Some (a, ag)) \<Rightarrow>
          (let s1 = update_task_status (now e) tid EXECUTING (loop_progress i n) None None s;
               s2 = s1\<lparr>events := events s1 @ [AgentCall i a]\<rparr>
           in case run_agent e i agent_name a ag context of
                Inl x \<Rightarrow> (Inl x, s2)
              | Inr entry \<Rightarrow>
                  agent_loop e tid context n rest (execution_results @ [entry]) s2))"

text \<open>\<^verbatim>\<open>_execute_with_intelligent_agents\<close>.\<close>

definition execute_with_intelligent_agents ::
  "env \<Rightarrow> string \<Rightarrow> pyval \<Rightarrow> SearchResult list option \<Rightarrow> orchestrator
     \<Rightarrow> (exn + pydict list) \<times> orchestrator" where
  "execute_with_intelligent_agents e tid plan context s =
     (case plan of
        PDict pd \<Rightarrow>
          (let selected_agents =
                 dict_get pd ''selected_agents'' (PList [PStr ''research'', PStr ''analysis''])
           in case py_iter selected_agents of
                Inl x \<Rightarrow> (Inl (Exception (''Agent execution failed: '' @ str_exn x)), s)
              | Inr xs \<Rightarrow>
                  (case agent_loop e tid context (length xs) (enumerate 0 xs) [] s of
                     (Inl x, s') \<Rightarrow>
                       (Inl (Exception (''Agent execution failed: '' @ str_exn x)), s')
                   | (Inr rs, s') \<Rightarrow> (Inr rs, s')))
      | _ \<Rightarrow> (Inl (AttributeError ''object has no attribute get''), s))"

section \<open>The task life cycle\<close>

text \<open>\<^verbatim>\<open>_analyze_knowledge_gaps_enhanced\<close>: the knowledge base's suggestions, or none.\<close>

definition analyze_knowledge_gaps_enhanced :: "env \<Rightarrow> pyval list" where
  "analyze_knowledge_gaps_enhanced e =
     (case suggest_enrichment e of Inr suggestions \<Rightarrow> suggestions | Inl x \<Rightarrow> [])"

text \<open>The body of the \<^verbatim>\<open>try\<close> of \<^verbatim>\<open>execute_task\<close>.\<close>

definition run_phases ::
  "env \<Rightarrow> string \<Rightarrow> string \<Rightarrow> SearchResult list option \<Rightarrow> orchestrator
     \<Rightarrow> (exn + TaskResult) \<times> orchestrator" where
  "run_phases e tid task_description context s0 =
     (let s1 = update_task_status (now e) tid PLANNING (1 / 10) None None s0 in
      case plan_task_with_agents e (agents s1) task_description context of
        PlanFailure err \<Rightarrow> (Inl (Exception (''Task planning failed: '' @ err)), s1)
      | PlanSuccess plan selected plan_text \<Rightarrow>
          (let s2 = update_task_status (now e) tid EXECUTING (3 / 10) None None s1 in
           case execute_with_intelligent_agents e tid plan context s2 of
             (Inl x, s3) \<Rightarrow> (Inl x, s3)
           | (Inr execution_results, s3) \<Rightarrow>
               (let s4 = update_task_status (now e) tid EXECUTING (8 / 10) None None s3;
                    fr = aggregate_results_enhanced e (agents s4) task_description
                           execution_results;
                    gaps = analyze_knowledge_gaps_enhanced e
                in case TaskResult_init tid COMPLETED fr execution_results gaps (elapsed e)
                          (now e) (now e) None of
                     Inl x \<Rightarrow> (Inl x, s4)
                   | Inr task_result \<Rightarrow>
                       (let s5 = update_task_status (now e) tid COMPLETED 1 (Some fr) None s4;
                            s6 = update_statistics True (elapsed e) s5
                        in (Inr task_result, s6)))))"

text \<open>\<^verbatim>\<open>execute_task\<close>: registration of the task, the phases, and the handler.\<close>

definition register_task :: "env \<Rightarrow> string \<Rightarrow> orchestrator \<Rightarrow> orchestrator" where
  "register_task e task_description s =
     s\<lparr>tasks := (tasks s)(uuid4 e \<mapsto>
          \<lparr>task_id = uuid4 e, description = task_description, status = PLANNING,
           created_at = now e, updated_at = now e, agents_info = [], progress = 0,
           result = None, errors = None\<rparr>),
       events := events s @ [StatusWrite (uuid4 e) PLANNING 0]\<rparr>"

definition execute_task ::
  "env \<Rightarrow> string \<Rightarrow> SearchResult list option \<Rightarrow> orchestrator
     \<Rightarrow> (exn + TaskResult) \<times> orchestrator" where
  "execute_task e task_description context s =
     (case run_phases e (uuid4 e) task_description context (register_task e task_description s) of
        (Inr task_result, s') \<Rightarrow> (Inr task_result, s')
      | (Inl x, s') \<Rightarrow>
          (let s1 = update_task_status (now e) (uuid4 e) FAILED 0 None (Some [str_exn x]) s';
               s2 = update_statistics False (elapsed e) s1
           in (Inl (Exception (''Task execution failed: '' @ str_exn x)), s2)))"



section \<open>The control endpoints\<close>

text \<open>
  \<^verbatim>\<open>enhanced_tasks.py\<close>: \<^verbatim>\<open>pause_task\<close>, \<^verbatim>\<open>resume_task\<close> and \<^verbatim>\<open>cancel_task\<close> call
  the method of the same name on the orchestrator, answer 400 when it returns false, pass an
  \<^verbatim>\<open>HTTPException\<close> on and turn every other exception into a 500. The orchestrator object
  has the attributes its class defines and its constructor sets; looking up any other name
  raises \<^verbatim>\<open>AttributeError\<close>. \<open>impl\<close> stands for the method where the object has it.
\<close>

datatype http_error = HTTPException nat string

definition EnhancedAgentOrchestrator_attributes :: "string list" where
  "EnhancedAgentOrchestrator_attributes =
     [''knowledge_base'', ''tasks'', ''tool_registry'', ''context_manager'', ''agents'', ''stats'',
      ''__init__'', ''_initialize_agents'', ''execute_task'', ''_plan_task_with_agents'',
      ''_select_agents_for_task'', ''_execute_with_intelligent_agents'',
      ''_execute_agent_with_tools'', ''_validate_agent_output'', ''_aggregate_results_enhanced'',
      ''_fallback_synthesis'', ''_analyze_knowledge_gaps_enhanced'', ''_format_context'',
      ''_update_task_status'', ''_update_statistics'', ''get_task_status'', ''get_statistics'',
      ''execute_task_with_progress'', ''ask_clarifying_questions'']"

type_synonym control_method = "orchestrator \<Rightarrow> string \<Rightarrow> exn + bool \<times> orchestrator"

definition call_orchestrator ::
  "string \<Rightarrow> control_method \<Rightarrow> orchestrator \<Rightarrow> string \<Rightarrow> exn + bool \<times> orchestrator" where
  "call_orchestrator name impl s tid =
     (if name \<in> set EnhancedAgentOrchestrator_attributes then impl s tid
      else Inl (AttributeError (''EnhancedAgentOrchestrator object has no attribute '' @ name)))"

definition control_endpoint ::
  "string \<Rightarrow> string \<Rightarrow> string \<Rightarrow> control_method \<Rightarrow> orchestrator \<Rightarrow> string
     \<Rightarrow> (http_error + pydict) \<times> orchestrator" where
  "control_endpoint name refusal done_message impl s tid =
     (case call_orchestrator name impl s tid of
        Inl x \<Rightarrow> (Inl (HTTPException 500 ''Internal server error''), s)
      | Inr (ok, s') \<Rightarrow>
          if \<not> ok then (Inl (HTTPException 400 refusal), s')
          else (Inr [(''message'', PStr done_message), (''task_id'', PStr tid)], s'))"

definition pause_task ::
  "control_method \<Rightarrow> orchestrator \<Rightarrow> string \<Rightarrow> (http_error + pydict) \<times> orchestrator" where
  "pause_task = control_endpoint ''pause_task'' ''Task cannot be paused'' ''Task paused successfully''"

definition resume_task ::
  "control_method \<Rightarrow> orchestrator \<Rightarrow> string \<Rightarrow> (http_error + pydict) \<times> orchestrator" where
  "resume_task =
     control_endpoint ''resume_task'' ''Task cannot be resumed'' ''Task resumed successfully''"

definition cancel_task ::
  "control_method \<Rightarrow> orchestrator \<Rightarrow> string \<Rightarrow> (http_error + pydict) \<times> orchestrator" where
  "cancel_task =
     control_endpoint ''cancel_task'' ''Task cannot be cancelled'' ''Task cancelled successfully''"

section \<open>The context manager\<close>









section \<open>Sample inputs\<close>

text \<open>
  Concrete inputs at which the functions above are evaluated below: an environment whose
  planner and agents answer, the default registry of tools reduced to the fact checker,
  a fresh orchestrator, and two execution records as the execution loop builds them.
\<close>

definition sample_env :: env where
  "sample_env =
     \<lparr>now = 0, now_iso = ''2024-01-01T00:00:00'', elapsed = 1, uuid4 = ''t1'',
      tools = [(''fact_checker'',
                \<lparr>tool_parameters = [''claim'', ''context'', ''sources''],
                 tool_function = (\<lambda>kwargs. Inr (PDict [(''confidence'', PNum (8 / 10))]))\<rparr>)],
      py_str = (\<lambda>v. ''0.8''),
      planner_execute =
        (\<lambda>task ctx. Inr \<lparr>ar_success = True, ar_output = ''plan'',
                          ar_metadata = [(''structured_plan'', PDict [(''steps'', PList [])])]\<rparr>),
      agent_execute_with_tools =
        (\<lambda>i a. Inr (PDict [(''output'', PStr ''done''), (''success'', PBool True),
                           (''confidence'', PNum (8 / 10)),
                           (''tools_used'', PList [PStr ''web_search''])])),
      coordinator_synthesize = (\<lambda>rs. Inr (PStr ''summary'')),
      fallback_text = (\<lambda>rs. ''summary''),
      suggest_enrichment = Inr []\<rparr>"


definition no_agents_env :: env where
  "no_agents_env =
     sample_env\<lparr>planner_execute :=
       (\<lambda>task ctx. Inr \<lparr>ar_success = True, ar_output = ''plan'',
                         ar_metadata = [(''structured_plan'',
                                         PDict [(''selected_agents'', PList [])])]\<rparr>)\<rparr>"

definition new_orchestrator :: orchestrator where
  "new_orchestrator =
     \<lparr>tasks = Map.empty, agents = initialize_agents,
      statistics = \<lparr>total_tasks = 0, successful_tasks = 0, failed_tasks = 0,
                    average_execution_time = 0\<rparr>,
      events = []\<rparr>"

definition record_research :: pydict where
  "record_research =
     [(''agent'', PStr ''research''),
      (''result'', PDict [(''output'', PStr ''findings''), (''agent_name'', PStr ''research'')]),
      (''timestamp'', PStr ''2024-01-01T00:00:00''), (''tools_used'', PList []),
      (''confidence'', PNum (8 / 10)), (''validation'', PDict [(''valid'', PBool True)])]"

definition record_analysis :: pydict where
  "record_analysis =
     [(''agent'', PStr ''analysis''),
      (''result'', PDict [(''output'', PStr ''figures''), (''agent_name'', PStr ''analysis'')]),
      (''timestamp'', PStr ''2024-01-01T00:00:01''), (''tools_used'', PList []),
      (''confidence'', PNum (4 / 10)), (''validation'', PDict [(''valid'', PBool True)])]"


definition raising_agents_env :: env where
  "raising_agents_env =
     sample_env\<lparr>agent_execute_with_tools := (\<lambda>i a. Inl (Exception ''provider unavailable''))\<rparr>"

definition agents_without_coordinator :: "(string \<times> agent) list" where
  "agents_without_coordinator =
     [(''planner'', PlannerAgent), (''research'', ResearchAgent), (''analysis'', AnalysisAgent),
      (''creator'', CreatorAgent)]"


definition hard_error_record :: pydict where
  "hard_error_record =
     [(''agent'', PStr ''research''),
      (''result'', PDict [(''error'', PStr ''provider unavailable''),
                          (''agent_name'', PStr ''research''), (''tools_used'', PList []),
                          (''confidence'', PNum 0)]),
      (''timestamp'', PStr ''2024-01-01T00:00:00''), (''tools_used'', PList []),
      (''confidence'', PNum 0),
      (''validation'', PDict [(''valid'', PBool False), (''reason'', PStr ''No output generated''),
                              (''confidence'', PStr ''low'')])]"

text \<open>Readers of a result: the overall confidence of an aggregation, a task's fields.\<close>

definition agg_overall :: "agg_result \<Rightarrow> rat option" where
  "agg_overall r = (case r of Aggregated a \<Rightarrow> overall_confidence a | _ \<Rightarrow> None)"

definition agg_scores :: "agg_result \<Rightarrow> (pyval \<times> pyval) list" where
  "agg_scores r = (case r of Aggregated a \<Rightarrow> confidence_scores a | _ \<Rightarrow> [])"

definition task_status :: "orchestrator \<Rightarrow> string \<Rightarrow> AgentStatus option" where
  "task_status s tid = (case tasks s tid of None \<Rightarrow> None | Some t \<Rightarrow> Some (status t))"

definition task_progress :: "orchestrator \<Rightarrow> string \<Rightarrow> rat option" where
  "task_progress s tid = (case tasks s tid of None \<Rightarrow> None | Some t \<Rightarrow> Some (progress t))"

definition task_errors :: "orchestrator \<Rightarrow> string \<Rightarrow> string list option" where
  "task_errors s tid = (case tasks s tid of None \<Rightarrow> None | Some t \<Rightarrow> errors t)"

section \<open>Properties of agent selection\<close>

lemma length_append_if: "length (append_if b a xs) = (if b then Suc (length xs) else length xs)"
  by (simp add: append_if_def)

lemma set_append_if: "set (append_if b a xs) = (if b then insert a (set xs) else set xs)"
  by (simp add: append_if_def)

lemma ensure_two_length: "2 \<le> length (ensure_two xs)"
proof (cases xs)
  case Nil
  then show ?thesis by (simp add: ensure_two_def append_if_def Let_def)
next
  case (Cons x ys)
  show ?thesis
  proof (cases ys)
    case Nil
    with Cons show ?thesis by (auto simp: ensure_two_def append_if_def Let_def)
  next
    case (Cons y zs)
    with \<open>xs = x # ys\<close> show ?thesis by (simp add: ensure_two_def)
  qed
qed

lemma ensure_two_defaults:
  assumes "length xs < 2"
  shows "ensure_two xs =
           xs @ (if ''research'' \<in> set xs then [] else [''research''])
              @ (if ''analysis'' \<in> set xs then [] else [''analysis''])"
  using assms by (auto simp: ensure_two_def append_if_def Let_def)

text \<open>
  C5. For every task description, the empty one and one matching no keyword included,
  agent selection returns at least two agent names. When keyword matching gave fewer than
  two, the result is the matched list followed by the defaults research and analysis
  (each unless already selected), so both defaults are in it.
\<close>

theorem select_agents_at_least_two:
  "2 \<le> length (select_agents_for_task d p) \<and>
   (length (keyword_agents d) < 2 \<longrightarrow>
      select_agents_for_task d p =
        keyword_agents d
          @ (if ''research'' \<in> set (keyword_agents d) then [] else [''research''])
          @ (if ''analysis'' \<in> set (keyword_agents d) then [] else [''analysis''])
      \<and> ''research'' \<in> set (select_agents_for_task d p)
      \<and> ''analysis'' \<in> set (select_agents_for_task d p))"
proof -
  have len: "2 \<le> length (select_agents_for_task d p)"
    by (simp add: select_agents_for_task_def ensure_two_length)
  have dflt: "length (keyword_agents d) < 2 \<Longrightarrow>
      select_agents_for_task d p =
        keyword_agents d
          @ (if ''research'' \<in> set (keyword_agents d) then [] else [''research''])
          @ (if ''analysis'' \<in> set (keyword_agents d) then [] else [''analysis''])"
    by (simp add: select_agents_for_task_def ensure_two_defaults)
  have mem: "length (keyword_agents d) < 2 \<Longrightarrow>
      ''research'' \<in> set (select_agents_for_task d p) \<and>
      ''analysis'' \<in> set (select_agents_for_task d p)"
    using dflt by auto
  from len dflt mem show ?thesis by blast
qed

theorem select_agents_at_least_two_witness:
  "length (keyword_agents '''') < 2 \<and>
   select_agents_for_task '''' (PDict []) = [''research'', ''analysis''] \<and>
   2 \<le> length (select_agents_for_task ''create'' (PDict []))"
proof -
  have k: "keyword_agents '''' = []"
    by (simp add: keyword_agents_def append_if_def any_word_in_def lower_def split_def Let_def)
  show ?thesis
    using select_agents_at_least_two [of "''''" "PDict []"] select_agents_at_least_two [of "''create''" "PDict []"]
    by (simp add: k)
qed

section \<open>Properties of the control endpoints\<close>

text \<open>
  C1. The claim gives pause, resume and cancel a boolean result: true from the permitted
  states, false (and no exception) from every other. In the code the orchestrator has none
  of the three methods, so each endpoint raises, whatever the state of the task: the
  attribute lookup fails and the endpoint answers 500. The registry is left as it was.
\<close>

theorem control_endpoints_raise:
  "pause_task impl s tid = (Inl (HTTPException 500 ''Internal server error''), s) \<and>
   resume_task impl s tid = (Inl (HTTPException 500 ''Internal server error''), s) \<and>
   cancel_task impl s tid = (Inl (HTTPException 500 ''Internal server error''), s)"
  by (simp add: pause_task_def resume_task_def cancel_task_def control_endpoint_def
      call_orchestrator_def EnhancedAgentOrchestrator_attributes_def)

section \<open>Properties of output validation\<close>

text \<open>
  C8. For every agent result whose \<^verbatim>\<open>tools_used\<close> list is not empty, validation returns
  valid = true with the high tier, whatever the output text, the context and the tools.
\<close>

theorem tools_used_valid_high:
  assumes "map_of agent_result ''tools_used'' = Some (PList ts)" and "ts \<noteq> []"
  shows "validate_agent_output e a agent_result ctx =
           \<lparr>valid = True, reason = ''Tools were used'', confidence = ''high''\<rparr>"
  using assms by (simp add: validate_agent_output_def validate_body_def dict_get_def)

theorem tools_used_valid_high_witness:
  "validate_agent_output sample_env ''research''
     [(''output'', PStr []), (''tools_used'', PList [PStr ''web_search''])] None =
   \<lparr>valid = True, reason = ''Tools were used'', confidence = ''high''\<rparr>"
  using tools_used_valid_high
    [of "[(''output'', PStr []), (''tools_used'', PList [PStr ''web_search''])]"
        "[PStr ''web_search'']" sample_env "''research''" None]
  by simp



section \<open>Properties of the context manager\<close>


section \<open>Properties of the execution loop and the task life cycle\<close>



lemma update_task_status_agents: "agents (update_task_status tm tid st p r er s) = agents s"
  by (auto simp: update_task_status_def Let_def split: option.splits)














lemmas agent_defs = initialize_agents_def PlannerAgent_def ResearchAgent_def AnalysisAgent_def
  CreatorAgent_def CoordinatorAgent_def BaseAgent_methods_def agents_without_coordinator_def

lemmas run_defs = execute_task_def run_phases_def register_task_def update_task_status_def
  update_statistics_def plan_task_with_agents_def execute_with_intelligent_agents_def
  new_orchestrator_def dict_get_def dict_has_def py_iter_def TaskResult_init_def
  aggregate_results_enhanced_def aggregate_body_def analyze_knowledge_gaps_enhanced_def
  agent_in_registry_def run_agent_def execute_agent_with_tools_def validate_agent_output_def
  validate_body_def loop_progress_def verdict_dict_def Let_def







section \<open>Properties of the aggregation\<close>

text \<open>
  C3. When no execution record survives, the claim has the task marked Failed with the
  reason "no successful agent executions". In the code the aggregation returns that reason
  in an ordinary dictionary and \<^verbatim>\<open>execute_task\<close> never looks at it: it goes on to build
  the Completed result. With an empty selection the task does end Failed, but through the
  validation error of the result object, and that message, not the reason, is what the task
  records. A record that carries a hard error holds it under its \<^verbatim>\<open>"result"\<close> key, so the
  filter on the key \<^verbatim>\<open>"error"\<close> keeps it and the aggregation treats it as a success.
\<close>

theorem no_survivor_reason_not_recorded:
  "aggregate_results_enhanced no_agents_env initialize_agents ''task'' []
     = Failed_dict ''No successful agent executions'' ''Task execution failed across all agents'' \<and>
   task_status (snd (execute_task no_agents_env ''task'' None new_orchestrator)) ''t1''
     = Some FAILED \<and>
   task_errors (snd (execute_task no_agents_env ''task'' None new_orchestrator)) ''t1''
     = Some [''1 validation error for TaskResult: overall_confidence Field required''] \<and>
   fst (execute_with_intelligent_agents raising_agents_env ''t1''
          (PDict [(''selected_agents'', PList [PStr ''research''])]) None
          (register_task raising_agents_env ''task'' new_orchestrator))
     = Inr [hard_error_record] \<and>
   aggregate_results_enhanced raising_agents_env initialize_agents ''task'' [hard_error_record]
     = Error_dict ''object has no attribute synthesize_results''
         ''Failed to aggregate agent results'' \<and>
   agg_overall (aggregate_results_enhanced raising_agents_env agents_without_coordinator ''task''
                  [hard_error_record]) = Some 0"
proof -
  have a: "aggregate_results_enhanced no_agents_env initialize_agents ''task'' []
     = Failed_dict ''No successful agent executions'' ''Task execution failed across all agents''"
    by (simp add: aggregate_results_enhanced_def aggregate_body_def)
  have b: "task_status (snd (execute_task no_agents_env ''task'' None new_orchestrator)) ''t1''
     = Some FAILED"
    by (simp add: task_status_def run_defs agent_defs no_agents_env_def sample_env_def)
  have c: "task_errors (snd (execute_task no_agents_env ''task'' None new_orchestrator)) ''t1''
     = Some [''1 validation error for TaskResult: overall_confidence Field required'']"
    by (simp add: task_errors_def run_defs agent_defs no_agents_env_def sample_env_def)
  have d: "fst (execute_with_intelligent_agents raising_agents_env ''t1''
          (PDict [(''selected_agents'', PList [PStr ''research''])]) None
          (register_task raising_agents_env ''task'' new_orchestrator))
     = Inr [hard_error_record]"
    by (simp add: run_defs agent_defs raising_agents_env_def sample_env_def hard_error_record_def
        half_confidence_def)
  have e: "aggregate_results_enhanced raising_agents_env initialize_agents ''task''
             [hard_error_record]
     = Error_dict ''object has no attribute synthesize_results''
         ''Failed to aggregate agent results''"
    by (simp add: aggregate_results_enhanced_def aggregate_body_def hard_error_record_def
        dict_has_def dict_get_def hash_key_def py_iter_def synthesis_step_def agent_defs Let_def)
  have f: "agg_overall (aggregate_results_enhanced raising_agents_env agents_without_coordinator
             ''task'' [hard_error_record]) = Some 0"
    by (simp add: aggregate_results_enhanced_def aggregate_body_def hard_error_record_def
        dict_has_def dict_get_def hash_key_def py_iter_def synthesis_step_def agent_defs
        agg_overall_def Let_def)
  from a b c d e f show ?thesis by simp
qed

text \<open>
  C4. The claim has the overall confidence equal to the mean of the per-agent confidences.
  The aggregation reads the agent's name under the key \<^verbatim>\<open>"agent_name"\<close>, which the
  execution records do not have (theirs is \<^verbatim>\<open>"agent"\<close>): every record is filed under
  \<^verbatim>\<open>"unknown"\<close>, each replacing the one before, and the overall confidence is the
  confidence of the last record. For records with confidences 0.8 and 0.4 it is 0.4, not
  the mean 0.6. With the orchestrator's own agents the synthesis step raises first, because
  the coordinator has no method \<^verbatim>\<open>synthesize_results\<close>, and no overall confidence is
  computed at all.
\<close>

theorem overall_confidence_is_last_record:
  "agg_scores (aggregate_results_enhanced sample_env agents_without_coordinator ''task''
       [record_research, record_analysis]) = [(PStr ''unknown'', PNum (4 / 10))] \<and>
   agg_overall (aggregate_results_enhanced sample_env agents_without_coordinator ''task''
       [record_research, record_analysis]) = Some (4 / 10) \<and>
   (4 / 10 :: rat) \<noteq> (8 / 10 + 4 / 10) / 2 \<and>
   aggregate_results_enhanced sample_env initialize_agents ''task''
       [record_research, record_analysis]
     = Error_dict ''object has no attribute synthesize_results''
         ''Failed to aggregate agent results''"
  by (simp add: aggregate_results_enhanced_def aggregate_body_def agg_scores_def agg_overall_def
      record_research_def record_analysis_def dict_has_def dict_get_def hash_key_def py_iter_def
      synthesis_step_def agent_defs sample_env_def Let_def)

section \<open>Properties of the stored agent outputs\<close>





end
